theory Spec2Isabelle
  imports Main
begin

section \<open>The platform\<close>

text \<open>
  \<^verbatim>\<open>error.c\<close> is written against \<^verbatim>\<open><signal.h>\<close>: the signal numbers, the two special
  handler values and the flag names come from the C library, and so does what
  \<^verbatim>\<open>signal()\<close> attaches to a handler it registers. None of that is fixed by the
  source, so it is a parameter of the model.

  A handler slot holds \<^verbatim>\<open>SIG_DFL\<close>, \<^verbatim>\<open>SIG_IGN\<close>, the address of the file's own
  \<^verbatim>\<open>spine_signal_handler\<close>, or the address of a function of some other component.
\<close>

datatype sighandler = SIG_DFL | SIG_IGN | SPINE_HANDLER | OTHER_HANDLER nat

datatype sa_flag =
  SA_RESTART | SA_RESETHAND | SA_NODEFER | SA_SIGINFO | SA_ONSTACK | SA_NOCLDSTOP | SA_NOCLDWAIT

text \<open>\<^verbatim>\<open>struct sigaction\<close>: the handler, the set of signals blocked while it runs, the flags.\<close>

record sigaction =
  sa_handler :: sighandler
  sa_mask :: "int set"
  sa_flags :: "sa_flag set"

text \<open>
  The platform gives the eight signal numbers the file names, the mask and flags that
  \<^verbatim>\<open>signal(sig, h)\<close> registers \<open>h\<close> with (POSIX leaves them to the implementation: BSD
  semantics restart system calls, System V semantics reset the handler on delivery and
  do not block the signal), and whether \<^verbatim>\<open>config.h\<close> defines \<^verbatim>\<open>HAVE_EXECINFO_H\<close>.
\<close>

record platform =
  SIGINT :: int
  SIGPIPE :: int
  SIGSEGV :: int
  SIGBUS :: int
  SIGFPE :: int
  SIGQUIT :: int
  SIGSYS :: int
  SIGABRT :: int
  signal_mask :: "int \<Rightarrow> int set"
  signal_flags :: "int \<Rightarrow> sa_flag set"
  HAVE_EXECINFO_H :: bool

text \<open>Linux with glibc: \<^verbatim>\<open>signal()\<close> has BSD semantics and blocks the signal itself.\<close>

definition linux_glibc :: platform where
  "linux_glibc =
     \<lparr>SIGINT = 2, SIGPIPE = 13, SIGSEGV = 11, SIGBUS = 7, SIGFPE = 8, SIGQUIT = 3,
      SIGSYS = 31, SIGABRT = 6,
      signal_mask = (\<lambda>sig. {sig}), signal_flags = (\<lambda>sig. {SA_RESTART}),
      HAVE_EXECINFO_H = True\<rparr>"

text \<open>A System V platform (Solaris numbering), built without \<^verbatim>\<open><execinfo.h>\<close>.\<close>

definition sysv :: platform where
  "sysv =
     \<lparr>SIGINT = 2, SIGPIPE = 13, SIGSEGV = 11, SIGBUS = 10, SIGFPE = 8, SIGQUIT = 3,
      SIGSYS = 12, SIGABRT = 6,
      signal_mask = (\<lambda>sig. {}), signal_flags = (\<lambda>sig. {SA_RESETHAND, SA_NODEFER}),
      HAVE_EXECINFO_H = False\<rparr>"

section \<open>The signal table\<close>

text \<open>\<^verbatim>\<open>static int spine_fatal_signals[]\<close>, with its terminating zero.\<close>

definition spine_fatal_signals :: "platform \<Rightarrow> int list" where
  "spine_fatal_signals P =
     [SIGINT P, SIGPIPE P, SIGSEGV P, SIGBUS P, SIGFPE P, SIGQUIT P, SIGSYS P, SIGABRT P, 0]"

text \<open>
  The entries a loop \<^verbatim>\<open>for (i=0; spine_fatal_signals[i]; ++i)\<close> visits: those before the
  first zero.
\<close>

definition monitored :: "platform \<Rightarrow> int list" where
  "monitored P = takeWhile (\<lambda>sig. sig \<noteq> 0) (spine_fatal_signals P)"

text \<open>Signal numbers are positive and pairwise different.\<close>

definition valid_signums :: "platform \<Rightarrow> bool" where
  "valid_signums P \<longleftrightarrow>
     distinct [SIGINT P, SIGPIPE P, SIGSEGV P, SIGBUS P, SIGFPE P, SIGQUIT P, SIGSYS P, SIGABRT P]
     \<and> 0 < SIGINT P \<and> 0 < SIGPIPE P \<and> 0 < SIGSEGV P \<and> 0 < SIGBUS P
     \<and> 0 < SIGFPE P \<and> 0 < SIGQUIT P \<and> 0 < SIGSYS P \<and> 0 < SIGABRT P"

section \<open>The disposition table of the process\<close>

text \<open>
  The kernel keeps one \<^verbatim>\<open>struct sigaction\<close> per signal. Every call below is made on a
  signal that can be caught, where neither \<^verbatim>\<open>sigaction()\<close> nor \<^verbatim>\<open>signal()\<close> fails; the
  source ignores their status.
\<close>

type_synonym sigtab = "int \<Rightarrow> sigaction"

text \<open>\<^verbatim>\<open>sigaction(sig, NULL, &sa)\<close>\<close>

definition sigaction_query :: "int \<Rightarrow> sigtab \<Rightarrow> sigaction" where
  "sigaction_query sig t = t sig"

text \<open>\<^verbatim>\<open>sigaction(sig, &sa, NULL)\<close>\<close>

definition sigaction_set :: "int \<Rightarrow> sigaction \<Rightarrow> sigtab \<Rightarrow> sigtab" where
  "sigaction_set sig sa t = t(sig := sa)"

text \<open>
  \<^verbatim>\<open>signal(sig, h)\<close> returns the handler registered before and registers \<open>h\<close>. It takes
  no mask and no flags: the entry it writes carries those of the platform, whatever the
  entry held before. With glibc that is \<^verbatim>\<open>SA_RESTART\<close> and a mask holding the signal
  itself, with System V semantics \<^verbatim>\<open>SA_RESETHAND | SA_NODEFER\<close> and an empty mask.
\<close>

definition signal :: "platform \<Rightarrow> int \<Rightarrow> sighandler \<Rightarrow> sigtab \<Rightarrow> sighandler \<times> sigtab" where
  "signal P sig h t =
     (sa_handler (t sig),
      t(sig := \<lparr>sa_handler = h, sa_mask = signal_mask P sig, sa_flags = signal_flags P sig\<rparr>))"

text \<open>
  The disposition of a signal is the action registered for it: the default, ignoring it,
  or a handler. The mask and the flags say how a handler is run, not which one.
\<close>

definition disposition :: "sigtab \<Rightarrow> int \<Rightarrow> sighandler" where
  "disposition t sig = sa_handler (t sig)"

section \<open>Install and uninstall\<close>

text \<open>
  The loop header shared by the four loops of the file. The table ends with its zero, so
  the loop never runs off its end.
\<close>

fun for_fatal_signals :: "(int \<Rightarrow> sigtab \<Rightarrow> sigtab) \<Rightarrow> int list \<Rightarrow> sigtab \<Rightarrow> sigtab" where
  "for_fatal_signals body [] t = t"
| "for_fatal_signals body (sig # rest) t =
     (if sig = 0 then t else for_fatal_signals body rest (body sig t))"

text \<open>Body of the first loop of \<^verbatim>\<open>install_spine_signal_handler\<close>.\<close>

definition install_sigaction :: "int \<Rightarrow> sigtab \<Rightarrow> sigtab" where
  "install_sigaction sig t =
     (let sa = sigaction_query sig t in
      if sa_handler sa = SIG_DFL
      then sigaction_set sig (sa\<lparr>sa_handler := SPINE_HANDLER, sa_mask := {}, sa_flags := {SA_RESTART}\<rparr>) t
      else t)"

text \<open>Body of its second loop.\<close>

definition install_signal :: "platform \<Rightarrow> int \<Rightarrow> sigtab \<Rightarrow> sigtab" where
  "install_signal P sig t =
     (let (ohandler, t1) = signal P sig SPINE_HANDLER t in
      if ohandler \<noteq> SIG_DFL then snd (signal P sig ohandler t1) else t1)"

definition install_spine_signal_handler :: "platform \<Rightarrow> sigtab \<Rightarrow> sigtab" where
  "install_spine_signal_handler P t =
     for_fatal_signals (install_signal P) (spine_fatal_signals P)
       (for_fatal_signals install_sigaction (spine_fatal_signals P) t)"

text \<open>Body of the first loop of \<^verbatim>\<open>uninstall_spine_signal_handler\<close>.\<close>

definition uninstall_sigaction :: "int \<Rightarrow> sigtab \<Rightarrow> sigtab" where
  "uninstall_sigaction sig t =
     (let sa = sigaction_query sig t in
      if sa_handler sa = SPINE_HANDLER
      then sigaction_set sig (sa\<lparr>sa_handler := SIG_DFL\<rparr>) t
      else t)"

text \<open>Body of its second loop.\<close>

definition uninstall_signal :: "platform \<Rightarrow> int \<Rightarrow> sigtab \<Rightarrow> sigtab" where
  "uninstall_signal P sig t =
     (let (ohandler, t1) = signal P sig SIG_DFL t in
      if ohandler \<noteq> SPINE_HANDLER then snd (signal P sig ohandler t1) else t1)"

definition uninstall_spine_signal_handler :: "platform \<Rightarrow> sigtab \<Rightarrow> sigtab" where
  "uninstall_spine_signal_handler P t =
     for_fatal_signals (uninstall_signal P) (spine_fatal_signals P)
       (for_fatal_signals uninstall_sigaction (spine_fatal_signals P) t)"

text \<open>The table of a process that has registered nothing.\<close>

definition all_default :: sigtab where
  "all_default = (\<lambda>sig. \<lparr>sa_handler = SIG_DFL, sa_mask = {}, sa_flags = {}\<rparr>)"

text \<open>
  A table where another component has taken \<^verbatim>\<open>SIGPIPE\<close> (13) with a three-argument
  handler and the file's handler is already on \<^verbatim>\<open>SIGSEGV\<close> (11).
\<close>

definition mixed_table :: sigtab where
  "mixed_table =
     all_default
       (13 := \<lparr>sa_handler = OTHER_HANDLER 1, sa_mask = {}, sa_flags = {SA_SIGINFO}\<rparr>,
        11 := \<lparr>sa_handler = SPINE_HANDLER, sa_mask = {}, sa_flags = {SA_RESTART}\<rparr>)"

text \<open>
  A table where the file's handler is nowhere and another component has registered a
  three-argument handler for \<^verbatim>\<open>SIGPIPE\<close> (13), on its own stack, with \<^verbatim>\<open>SIGTERM\<close> (15)
  blocked while it runs.
\<close>

definition foreign_table :: sigtab where
  "foreign_table =
     all_default
       (13 := \<lparr>sa_handler = OTHER_HANDLER 1, sa_mask = {15}, sa_flags = {SA_SIGINFO, SA_ONSTACK}\<rparr>)"

section \<open>The process and one delivery\<close>

text \<open>
  The handler works on the disposition table, on three fields of the global \<^verbatim>\<open>set\<close>
  (\<^verbatim>\<open>exit_code\<close>, \<^verbatim>\<open>exit_size\<close> and the buffer \<^verbatim>\<open>exit_stack\<close>, declared in \<^verbatim>\<open>spine.h\<close>),
  on standard error and on the life of the process. The process records what each
  \<^verbatim>\<open>fprintf\<close> wrote, the order of its effects, and the status it exited with, if it did.
\<close>

datatype effect =
  Signal_set int sighandler
  | Exit_code_stored int
  | Written string
  | Backtraced nat
  | Exited int

record process =
  dispositions :: sigtab
  exit_code :: int
  exit_size :: int
  exit_stack :: "nat list"
  stderr :: "string list"
  effects :: "effect list"
  exit_status :: "int option"

text \<open>
  What one run of the handler reads from outside: the text \<^verbatim>\<open>strftime\<close> leaves in
  \<^verbatim>\<open>logtime\<close>, the return addresses on the stack, and the answer of
  \<^verbatim>\<open>backtrace_symbols\<close>: \<open>None\<close> is its \<^verbatim>\<open>NULL\<close>, otherwise a string for each address.
\<close>

record delivery =
  logtime :: string
  callstack :: "nat list"
  symbols :: "(nat \<Rightarrow> string) option"

subsection \<open>Formatting\<close>

definition digit_char :: "nat \<Rightarrow> char" where
  "digit_char n = ''0123456789'' ! (n mod 10)"

fun show_nat :: "nat \<Rightarrow> string" where
  "show_nat n = (if n < 10 then [digit_char n] else show_nat (n div 10) @ [digit_char (n mod 10)])"

declare show_nat.simps [simp del]

text \<open>\<^verbatim>\<open>%d\<close> and \<^verbatim>\<open>%ld\<close>\<close>

definition show_int :: "int \<Rightarrow> string" where
  "show_int i = (if i < 0 then CHR ''-'' # show_nat (nat (- i)) else show_nat (nat i))"

text \<open>\<^verbatim>\<open>%3d\<close>\<close>

definition show_int3 :: "int \<Rightarrow> string" where
  "show_int3 i = replicate (3 - length (show_int i)) CHR '' '' @ show_int i"

subsection \<open>The calls the handler makes\<close>

definition signal_call :: "platform \<Rightarrow> int \<Rightarrow> sighandler \<Rightarrow> process \<Rightarrow> process" where
  "signal_call P sig h p =
     p\<lparr>dispositions := snd (signal P sig h (dispositions p)),
       effects := effects p @ [Signal_set sig h]\<rparr>"

definition store_exit_code :: "int \<Rightarrow> process \<Rightarrow> process" where
  "store_exit_code c p = p\<lparr>exit_code := c, effects := effects p @ [Exit_code_stored c]\<rparr>"

definition fprintf_stderr :: "string \<Rightarrow> process \<Rightarrow> process" where
  "fprintf_stderr text p = p\<lparr>stderr := stderr p @ [text], effects := effects p @ [Written text]\<rparr>"

text \<open>
  \<^verbatim>\<open>set.exit_size = backtrace(set.exit_stack, set.exit_size)\<close>: at most \<^verbatim>\<open>exit_size\<close>
  addresses of the stack go to the front of the buffer, and their number is returned
  (none for a size that is not positive). The source relies on \<^verbatim>\<open>exit_size\<close> not
  exceeding the capacity that \<^verbatim>\<open>spine.h\<close> gives the buffer.
\<close>

definition backtrace :: "delivery \<Rightarrow> process \<Rightarrow> process" where
  "backtrace D p =
     (let frames = take (nat (exit_size p)) (callstack D) in
      p\<lparr>exit_stack := frames @ drop (length frames) (exit_stack p),
        exit_size := int (length frames),
        effects := effects p @ [Backtraced (length frames)]\<rparr>)"

text \<open>\<^verbatim>\<open>backtrace_symbols(set.exit_stack, set.exit_size)\<close>\<close>

definition backtrace_symbols :: "delivery \<Rightarrow> process \<Rightarrow> string list option" where
  "backtrace_symbols D p =
     (case symbols D of
        None \<Rightarrow> None
      | Some name \<Rightarrow> Some (map name (take (nat (exit_size p)) (exit_stack p))))"

text \<open>\<^verbatim>\<open>exit(1)\<close> does not return.\<close>

definition exit_call :: "int \<Rightarrow> process \<Rightarrow> process" where
  "exit_call status p = p\<lparr>exit_status := Some status, effects := effects p @ [Exited status]\<rparr>"

subsection \<open>The handler\<close>

text \<open>\<^verbatim>\<open>for (row = 0; row < set.exit_size; row++) fprintf(stderr, "%3d: %s\n", ...)\<close>\<close>

function print_rows :: "string list \<Rightarrow> int \<Rightarrow> process \<Rightarrow> process" where
  "print_rows exit_strings row p =
     (if row < exit_size p
      then print_rows exit_strings (row + 1)
             (fprintf_stderr (show_int3 row @ '': '' @ exit_strings ! nat row @ ''\<newline>'') p)
      else p)"
  by pat_completeness auto
termination
  by (relation "measure (\<lambda>(exit_strings, row, p). nat (exit_size p - row))")
     (auto simp: fprintf_stderr_def)

declare print_rows.simps [simp del]

text \<open>
  The part of the \<^verbatim>\<open>SIGSEGV\<close> case between \<^verbatim>\<open>#ifdef HAVE_EXECINFO_H\<close> and \<^verbatim>\<open>#endif\<close>.
  The final \<^verbatim>\<open>free(exit_strings)\<close> changes nothing that is modelled.
\<close>

definition print_backtrace :: "delivery \<Rightarrow> process \<Rightarrow> process" where
  "print_backtrace D p =
     (let p1 = fprintf_stderr
                 (''Generating backtrace...'' @ show_int (exit_size p) @ '' line(s)...\<newline>'') p
      in if exit_size p1 \<noteq> 0
         then (let p2 = backtrace D p1 in
               case backtrace_symbols D p2 of
                 Some exit_strings \<Rightarrow> print_rows exit_strings 0 p2
               | None \<Rightarrow> p2)
         else p1)"

text \<open>
  \<^verbatim>\<open>static void spine_signal_handler(int spine_signal)\<close>. Between the store of the exit
  code and the \<^verbatim>\<open>switch\<close> the source reads the clock and formats it into \<^verbatim>\<open>logtime\<close>,
  which changes nothing of the process; the result is \<open>logtime D\<close>. The cases of the
  \<^verbatim>\<open>switch\<close> are tried in the order of the source.
\<close>

definition spine_signal_handler :: "platform \<Rightarrow> delivery \<Rightarrow> int \<Rightarrow> process \<Rightarrow> process" where
  "spine_signal_handler P D spine_signal p =
     (let p1 = signal_call P spine_signal SIG_DFL p;
          p2 = store_exit_code spine_signal p1
      in if spine_signal = SIGABRT P then
           fprintf_stderr (logtime D @ '' FATAL: Spine Interrupted by Abort Signal\<newline>'') p2
         else if spine_signal = SIGINT P then
           fprintf_stderr (logtime D @ '' FATAL: Spine Interrupted by Console Operator\<newline>'') p2
         else if spine_signal = SIGSEGV P then
           (let p3 = fprintf_stderr
                       (logtime D @ '' FATAL: Spine Encountered a Segmentation Fault\<newline>'') p2;
                p4 = (if HAVE_EXECINFO_H P then print_backtrace D p3 else p3)
            in exit_call 1 p4)
         else if spine_signal = SIGBUS P then
           fprintf_stderr (logtime D @ '' FATAL: Spine Encountered a Bus Error\<newline>'') p2
         else if spine_signal = SIGFPE P then
           fprintf_stderr
             (logtime D @ '' FATAL: Spine Encountered a Floating Point Exception\<newline>'') p2
         else if spine_signal = SIGQUIT P then
           fprintf_stderr
             (logtime D @ '' FATAL: Spine Encountered a Keyboard Quit Command\<newline>'') p2
         else if spine_signal = SIGPIPE P then
           fprintf_stderr (logtime D @ '' FATAL: Spine Encountered a Broken Pipe\<newline>'') p2
         else
           fprintf_stderr
             (logtime D @ '' FATAL: Spine Encountered An Unhandled Exception Signal Number: ''
                @ [CHR 0x27] @ show_int spine_signal @ [CHR 0x27] @ ''\<newline>'') p2)"

text \<open>A process at start: nothing registered, nothing written, the exit state zeroed.\<close>

definition fresh_process :: process where
  "fresh_process =
     \<lparr>dispositions = all_default, exit_code = 0, exit_size = 0, exit_stack = [],
      stderr = [], effects = [], exit_status = None\<rparr>"

text \<open>A delivery with three frames on the stack, all of them resolved.\<close>

definition example_delivery :: delivery where
  "example_delivery =
     \<lparr>logtime = ''2023-01-01 00:00:00'', callstack = [4096, 4112, 4128],
      symbols = Some (\<lambda>a. ''frame '' @ show_nat a)\<rparr>"

text \<open>A process that has installed the handler and asks for up to two frames.\<close>

definition started :: "platform \<Rightarrow> process" where
  "started P =
     fresh_process
       \<lparr>dispositions := install_spine_signal_handler P all_default,
        exit_size := 2, exit_stack := [0, 0, 0, 0]\<rparr>"

section \<open>Notions of the specification\<close>

text \<open>Frame lines indexed from zero, one for each string.\<close>

definition frame_lines :: "string list \<Rightarrow> string list" where
  "frame_lines exit_strings =
     map (\<lambda>i. show_int3 (int i) @ '': '' @ exit_strings ! i @ ''\<newline>'') [0..<length exit_strings]"

text \<open>
  The strings of the frames that are captured and resolved when \<open>n\<close> frames are asked
  for: none when nothing is asked for or the resolver returns \<^verbatim>\<open>NULL\<close>.
\<close>

definition resolved_frames :: "delivery \<Rightarrow> int \<Rightarrow> string list" where
  "resolved_frames D n =
     (case symbols D of None \<Rightarrow> [] | Some name \<Rightarrow> map name (take (nat n) (callstack D)))"

text \<open>The effects that are output, capture or termination.\<close>

fun output_or_exit :: "effect \<Rightarrow> bool" where
  "output_or_exit (Written text) = True"
| "output_or_exit (Backtraced n) = True"
| "output_or_exit (Exited status) = True"
| "output_or_exit (Signal_set sig h) = False"
| "output_or_exit (Exit_code_stored c) = False"

section \<open>What the loops do to one entry\<close>

lemma for_fatal_signals_pointwise:
  assumes body: "\<And>sig t. body sig t = t(sig := g sig (t sig))"
    and idem: "\<And>sig sa. g sig (g sig sa) = g sig sa"
  shows "for_fatal_signals body tab t =
           (\<lambda>sig. if sig \<in> set (takeWhile (\<lambda>s. s \<noteq> 0) tab) then g sig (t sig) else t sig)"
proof (induction tab arbitrary: t)
  case Nil
  show ?case by simp
next
  case (Cons s rest)
  show ?case
  proof (cases "s = 0")
    case True
    then show ?thesis by simp
  next
    case False
    have "for_fatal_signals body (s # rest) t = for_fatal_signals body rest (t(s := g s (t s)))"
      using False by (simp add: body)
    also have "\<dots> = (\<lambda>sig. if sig \<in> set (takeWhile (\<lambda>s. s \<noteq> 0) rest)
                            then g sig ((t(s := g s (t s))) sig) else (t(s := g s (t s))) sig)"
      by (rule Cons.IH)
    also have "\<dots> = (\<lambda>sig. if sig \<in> set (takeWhile (\<lambda>s. s \<noteq> 0) (s # rest))
                            then g sig (t sig) else t sig)"
      using False by (auto simp: fun_eq_iff idem)
    finally show ?thesis .
  qed
qed

lemma install_sigaction_upd:
  "install_sigaction sig t =
     t(sig := (if sa_handler (t sig) = SIG_DFL
               then (t sig)\<lparr>sa_handler := SPINE_HANDLER, sa_mask := {}, sa_flags := {SA_RESTART}\<rparr>
               else t sig))"
  by (simp add: install_sigaction_def sigaction_query_def sigaction_set_def Let_def)

lemma install_signal_upd:
  "install_signal P sig t =
     t(sig := \<lparr>sa_handler = (if sa_handler (t sig) = SIG_DFL then SPINE_HANDLER else sa_handler (t sig)),
               sa_mask = signal_mask P sig, sa_flags = signal_flags P sig\<rparr>)"
  by (simp add: install_signal_def signal_def)

lemma uninstall_sigaction_upd:
  "uninstall_sigaction sig t =
     t(sig := (if sa_handler (t sig) = SPINE_HANDLER then (t sig)\<lparr>sa_handler := SIG_DFL\<rparr> else t sig))"
  by (simp add: uninstall_sigaction_def sigaction_query_def sigaction_set_def Let_def)

lemma uninstall_signal_upd:
  "uninstall_signal P sig t =
     t(sig := \<lparr>sa_handler = (if sa_handler (t sig) = SPINE_HANDLER then SIG_DFL else sa_handler (t sig)),
               sa_mask = signal_mask P sig, sa_flags = signal_flags P sig\<rparr>)"
  by (simp add: uninstall_signal_def signal_def)

lemma install_pass1:
  "for_fatal_signals install_sigaction (spine_fatal_signals P) t =
     (\<lambda>sig. if sig \<in> set (monitored P)
            then (if sa_handler (t sig) = SIG_DFL
                  then (t sig)\<lparr>sa_handler := SPINE_HANDLER, sa_mask := {}, sa_flags := {SA_RESTART}\<rparr>
                  else t sig)
            else t sig)"
  unfolding monitored_def
  by (rule for_fatal_signals_pointwise [where g = "\<lambda>sig sa. if sa_handler sa = SIG_DFL
                  then sa\<lparr>sa_handler := SPINE_HANDLER, sa_mask := {}, sa_flags := {SA_RESTART}\<rparr>
                  else sa"])
     (simp_all add: install_sigaction_upd)

lemma install_pass2:
  "for_fatal_signals (install_signal P) (spine_fatal_signals P) t =
     (\<lambda>sig. if sig \<in> set (monitored P)
            then \<lparr>sa_handler = (if sa_handler (t sig) = SIG_DFL then SPINE_HANDLER else sa_handler (t sig)),
                  sa_mask = signal_mask P sig, sa_flags = signal_flags P sig\<rparr>
            else t sig)"
  unfolding monitored_def
  by (rule for_fatal_signals_pointwise [where g = "\<lambda>sig sa. 
          \<lparr>sa_handler = (if sa_handler sa = SIG_DFL then SPINE_HANDLER else sa_handler sa),
                  sa_mask = signal_mask P sig, sa_flags = signal_flags P sig\<rparr>"])
     (simp_all add: install_signal_upd)

lemma uninstall_pass1:
  "for_fatal_signals uninstall_sigaction (spine_fatal_signals P) t =
     (\<lambda>sig. if sig \<in> set (monitored P)
            then (if sa_handler (t sig) = SPINE_HANDLER then (t sig)\<lparr>sa_handler := SIG_DFL\<rparr> else t sig)
            else t sig)"
  unfolding monitored_def
  by (rule for_fatal_signals_pointwise [where g = "\<lambda>sig sa. if sa_handler sa = SPINE_HANDLER
                  then sa\<lparr>sa_handler := SIG_DFL\<rparr> else sa"])
     (simp_all add: uninstall_sigaction_upd)

lemma uninstall_pass2:
  "for_fatal_signals (uninstall_signal P) (spine_fatal_signals P) t =
     (\<lambda>sig. if sig \<in> set (monitored P)
            then \<lparr>sa_handler = (if sa_handler (t sig) = SPINE_HANDLER then SIG_DFL else sa_handler (t sig)),
                  sa_mask = signal_mask P sig, sa_flags = signal_flags P sig\<rparr>
            else t sig)"
  unfolding monitored_def
  by (rule for_fatal_signals_pointwise [where g = "\<lambda>sig sa. 
          \<lparr>sa_handler = (if sa_handler sa = SPINE_HANDLER then SIG_DFL else sa_handler sa),
                  sa_mask = signal_mask P sig, sa_flags = signal_flags P sig\<rparr>"])
     (simp_all add: uninstall_signal_upd)

lemma install_entry:
  "install_spine_signal_handler P t =
     (\<lambda>sig. if sig \<in> set (monitored P)
            then \<lparr>sa_handler = (if sa_handler (t sig) = SIG_DFL then SPINE_HANDLER else sa_handler (t sig)),
                  sa_mask = signal_mask P sig, sa_flags = signal_flags P sig\<rparr>
            else t sig)"
  by (simp add: install_spine_signal_handler_def install_pass1 install_pass2 fun_eq_iff)

lemma uninstall_entry:
  "uninstall_spine_signal_handler P t =
     (\<lambda>sig. if sig \<in> set (monitored P)
            then \<lparr>sa_handler = (if sa_handler (t sig) = SPINE_HANDLER then SIG_DFL else sa_handler (t sig)),
                  sa_mask = signal_mask P sig, sa_flags = signal_flags P sig\<rparr>
            else t sig)"
  by (simp add: uninstall_spine_signal_handler_def uninstall_pass1 uninstall_pass2 fun_eq_iff)

lemma monitored_valid:
  "valid_signums P \<Longrightarrow>
     monitored P = [SIGINT P, SIGPIPE P, SIGSEGV P, SIGBUS P, SIGFPE P, SIGQUIT P, SIGSYS P, SIGABRT P]"
  by (simp add: monitored_def spine_fatal_signals_def valid_signums_def)

lemma monitored_linux_glibc: "monitored linux_glibc = [2, 13, 11, 7, 8, 3, 31, 6]"
  by (simp add: monitored_def spine_fatal_signals_def linux_glibc_def)

lemma valid_linux: "valid_signums linux_glibc"
  by (simp add: valid_signums_def linux_glibc_def)

lemma linux_glibc_fields:
  "SIGINT linux_glibc = 2" "SIGPIPE linux_glibc = 13" "SIGSEGV linux_glibc = 11"
  "SIGBUS linux_glibc = 7" "SIGFPE linux_glibc = 8" "SIGQUIT linux_glibc = 3"
  "SIGSYS linux_glibc = 31" "SIGABRT linux_glibc = 6"
  "signal_mask linux_glibc sig = {sig}" "signal_flags linux_glibc sig = {SA_RESTART}"
  "HAVE_EXECINFO_H linux_glibc"
  by (simp_all add: linux_glibc_def)

lemma sysv_fields:
  "SIGINT sysv = 2" "SIGPIPE sysv = 13" "SIGSEGV sysv = 11"
  "SIGBUS sysv = 10" "SIGFPE sysv = 8" "SIGQUIT sysv = 3"
  "SIGSYS sysv = 12" "SIGABRT sysv = 6"
  "signal_mask sysv sig = {}" "signal_flags sysv sig = {SA_RESETHAND, SA_NODEFER}"
  "\<not> HAVE_EXECINFO_H sysv"
  by (simp_all add: sysv_def)

lemma valid_sysv: "valid_signums sysv"
  by (simp add: valid_signums_def sysv_fields)

lemma monitored_sysv: "monitored sysv = [2, 13, 11, 10, 8, 3, 12, 6]"
  by (simp add: monitored_def spine_fatal_signals_def sysv_def)

lemma install_disposition:
  "sig \<in> set (monitored P) \<Longrightarrow>
   disposition (install_spine_signal_handler P t) sig =
     (if disposition t sig = SIG_DFL then SPINE_HANDLER else disposition t sig)"
  by (simp add: disposition_def install_entry)

lemma uninstall_disposition:
  "sig \<in> set (monitored P) \<Longrightarrow>
   disposition (uninstall_spine_signal_handler P t) sig =
     (if disposition t sig = SPINE_HANDLER then SIG_DFL else disposition t sig)"
  by (simp add: disposition_def uninstall_entry)

lemma unmonitored_untouched:
  "sig \<notin> set (monitored P) \<Longrightarrow>
   install_spine_signal_handler P t sig = t sig \<and> uninstall_spine_signal_handler P t sig = t sig"
  by (simp add: install_entry uninstall_entry)

lemma install_first_loop_configuration:
  "sig \<in> set (monitored P) \<Longrightarrow> disposition t sig = SIG_DFL \<Longrightarrow>
   for_fatal_signals install_sigaction (spine_fatal_signals P) t sig =
     \<lparr>sa_handler = SPINE_HANDLER, sa_mask = {}, sa_flags = {SA_RESTART}\<rparr>"
  by (simp add: install_pass1 disposition_def)

lemma install_final_configuration:
  "sig \<in> set (monitored P) \<Longrightarrow> disposition t sig = SIG_DFL \<Longrightarrow>
   install_spine_signal_handler P t sig =
     \<lparr>sa_handler = SPINE_HANDLER, sa_mask = signal_mask P sig, sa_flags = signal_flags P sig\<rparr>"
  by (simp add: install_entry disposition_def)

lemma other_component_attributes_rewritten:
  "sa_flags (install_spine_signal_handler linux_glibc mixed_table 13) = {SA_RESTART}
   \<and> sa_flags (mixed_table 13) = {SA_SIGINFO}"
  by (simp add: install_entry monitored_linux_glibc mixed_table_def linux_glibc_fields)

section \<open>Install and uninstall: the claims\<close>

text \<open>
  C1. Non-interference: install is to change the disposition of a monitored signal only
  when it is the default and uninstall only when it is the file's handler, and what
  another component has registered is to be left as it is. The first loop of each
  operation does that. The second loop does not: it calls \<^verbatim>\<open>signal()\<close> on every monitored
  signal, which puts the file's handler (or the default) in the place of the foreign
  handler, and then registers the foreign handler again through \<^verbatim>\<open>signal()\<close>, with the
  mask and flags of \<^verbatim>\<open>signal()\<close> in the place of its own. Only which handler is
  registered is the same at the end (\<open>install_disposition\<close>, \<open>uninstall_disposition\<close>).
  On \<open>mixed_table\<close> under glibc, for \<^verbatim>\<open>SIGPIPE\<close> (13): the entry before, the first loop of
  install, the first call of its second loop and what it returns, and the entry after
  install and after uninstall.
\<close>

theorem foreign_entry_rewritten:
  "mixed_table 13 = \<lparr>sa_handler = OTHER_HANDLER 1, sa_mask = {}, sa_flags = {SA_SIGINFO}\<rparr>
   \<and> for_fatal_signals install_sigaction (spine_fatal_signals linux_glibc) mixed_table 13 =
       \<lparr>sa_handler = OTHER_HANDLER 1, sa_mask = {}, sa_flags = {SA_SIGINFO}\<rparr>
   \<and> fst (signal linux_glibc 13 SPINE_HANDLER mixed_table) = OTHER_HANDLER 1
   \<and> snd (signal linux_glibc 13 SPINE_HANDLER mixed_table) 13 =
       \<lparr>sa_handler = SPINE_HANDLER, sa_mask = {13}, sa_flags = {SA_RESTART}\<rparr>
   \<and> install_spine_signal_handler linux_glibc mixed_table 13 =
       \<lparr>sa_handler = OTHER_HANDLER 1, sa_mask = {13}, sa_flags = {SA_RESTART}\<rparr>
   \<and> uninstall_spine_signal_handler linux_glibc mixed_table 13 =
       \<lparr>sa_handler = OTHER_HANDLER 1, sa_mask = {13}, sa_flags = {SA_RESTART}\<rparr>"
  by (simp add: install_pass1 install_entry uninstall_entry monitored_linux_glibc signal_def
        mixed_table_def all_default_def linux_glibc_fields)

text \<open>
  C3. Round trip: for a monitored signal whose disposition is the default, install makes
  it the file's handler and a following uninstall returns it to the default it was.
\<close>

theorem install_uninstall_round_trip:
  assumes "sig \<in> set (monitored P)" and "disposition t sig = SIG_DFL"
  shows "disposition (install_spine_signal_handler P t) sig = SPINE_HANDLER
         \<and> disposition (uninstall_spine_signal_handler P (install_spine_signal_handler P t)) sig
             = disposition t sig"
  using assms by (simp add: install_disposition uninstall_disposition)

theorem install_uninstall_round_trip_witness:
  "8 \<in> set (monitored linux_glibc) \<and> disposition all_default 8 = SIG_DFL
   \<and> disposition (install_spine_signal_handler linux_glibc all_default) 8 = SPINE_HANDLER
   \<and> disposition (uninstall_spine_signal_handler linux_glibc
         (install_spine_signal_handler linux_glibc all_default)) 8 = SIG_DFL"
proof -
  have m: "8 \<in> set (monitored linux_glibc)" by (simp add: monitored_linux_glibc)
  have d: "disposition all_default 8 = SIG_DFL" by (simp add: disposition_def all_default_def)
  show ?thesis using m d install_uninstall_round_trip [OF m d] by simp
qed

text \<open>
  C4. Idempotence: from every table, installing twice leaves the same table as
  installing once, entry by entry, mask and flags included.
\<close>

theorem install_idempotent:
  "install_spine_signal_handler P (install_spine_signal_handler P t) =
     install_spine_signal_handler P t"
  by (simp add: install_entry fun_eq_iff)

text \<open>
  C9. Uninstall without install: when no monitored signal has the file's handler,
  uninstall is to leave every disposition as it is. Its first loop does. Its second loop
  still calls \<^verbatim>\<open>signal(sig, SIG_DFL)\<close> and then \<^verbatim>\<open>signal(sig, ohandler)\<close> on every monitored
  signal, so that an entry of another component comes back with the mask and flags of
  \<^verbatim>\<open>signal()\<close>. On \<open>foreign_table\<close>, where the file's handler is nowhere, under glibc, for
  \<^verbatim>\<open>SIGPIPE\<close> (13): the entry before, after the first loop, and after uninstall.
\<close>

theorem uninstall_rewrites_without_install:
  "list_all (\<lambda>sig. disposition foreign_table sig \<noteq> SPINE_HANDLER) (monitored linux_glibc)
   \<and> foreign_table 13 =
       \<lparr>sa_handler = OTHER_HANDLER 1, sa_mask = {15}, sa_flags = {SA_SIGINFO, SA_ONSTACK}\<rparr>
   \<and> for_fatal_signals uninstall_sigaction (spine_fatal_signals linux_glibc) foreign_table 13 =
       \<lparr>sa_handler = OTHER_HANDLER 1, sa_mask = {15}, sa_flags = {SA_SIGINFO, SA_ONSTACK}\<rparr>
   \<and> uninstall_spine_signal_handler linux_glibc foreign_table 13 =
       \<lparr>sa_handler = OTHER_HANDLER 1, sa_mask = {13}, sa_flags = {SA_RESTART}\<rparr>"
  by (simp add: uninstall_pass1 uninstall_entry monitored_linux_glibc disposition_def
        foreign_table_def all_default_def linux_glibc_fields)

text \<open>
  C7. Install configuration. The first loop registers the handler with an empty mask
  and \<^verbatim>\<open>SA_RESTART\<close> (\<open>install_first_loop_configuration\<close>), but the second loop
  registers it again through \<^verbatim>\<open>signal()\<close>, so that what is left when install returns are
  the mask and flags of \<^verbatim>\<open>signal()\<close> (\<open>install_final_configuration\<close>). From the all-default
  table, \<^verbatim>\<open>SIGINT\<close> (2) ends with itself in the mask under glibc, and without
  \<^verbatim>\<open>SA_RESTART\<close> under System V semantics.
\<close>

theorem install_configuration_overwritten:
  "install_spine_signal_handler linux_glibc all_default 2 =
     \<lparr>sa_handler = SPINE_HANDLER, sa_mask = {2}, sa_flags = {SA_RESTART}\<rparr>
   \<and> install_spine_signal_handler sysv all_default 2 =
     \<lparr>sa_handler = SPINE_HANDLER, sa_mask = {}, sa_flags = {SA_RESETHAND, SA_NODEFER}\<rparr>"
  by (simp add: install_entry monitored_linux_glibc monitored_sysv all_default_def
        linux_glibc_fields sysv_fields)

section \<open>What the handler does\<close>

lemma print_rows_eq:
  "0 \<le> row \<Longrightarrow>
   print_rows es row p =
     p\<lparr>stderr := stderr p @ map (\<lambda>i. show_int3 (int i) @ '': '' @ es ! i @ ''\<newline>'')
                                [nat row..<nat (exit_size p)],
       effects := effects p @ map (\<lambda>i. Written (show_int3 (int i) @ '': '' @ es ! i @ ''\<newline>''))
                                  [nat row..<nat (exit_size p)]\<rparr>"
proof (induction es row p rule: print_rows.induct)
  case (1 es row p)
  show ?case
  proof (cases "row < exit_size p")
    case True
    let ?q = "fprintf_stderr (show_int3 row @ '': '' @ es ! nat row @ ''\<newline>'') p"
    have lt: "nat row < nat (exit_size p)" using True "1.prems" by simp
    have suc: "nat (row + 1) = Suc (nat row)" using "1.prems" by simp
    have inv: "int (nat row) = row" using "1.prems" by simp
    have "print_rows es row p = print_rows es (row + 1) ?q"
      using True by (subst print_rows.simps) simp
    also have "\<dots> = ?q\<lparr>stderr := stderr ?q @ map (\<lambda>i. show_int3 (int i) @ '': '' @ es ! i @ ''\<newline>'')
                                [nat (row + 1)..<nat (exit_size ?q)],
       effects := effects ?q @ map (\<lambda>i. Written (show_int3 (int i) @ '': '' @ es ! i @ ''\<newline>''))
                                  [nat (row + 1)..<nat (exit_size ?q)]\<rparr>"
      using True "1.prems" by (intro "1.IH") simp_all
    also have "\<dots> = p\<lparr>stderr := stderr p @ map (\<lambda>i. show_int3 (int i) @ '': '' @ es ! i @ ''\<newline>'')
                                [nat row..<nat (exit_size p)],
       effects := effects p @ map (\<lambda>i. Written (show_int3 (int i) @ '': '' @ es ! i @ ''\<newline>''))
                                  [nat row..<nat (exit_size p)]\<rparr>"
      using "1.prems" by (simp add: suc inv upt_conv_Cons [OF lt] fprintf_stderr_def)
    finally show ?thesis .
  next
    case False
    then show ?thesis using "1.prems" by (subst print_rows.simps) simp
  qed
qed

lemma print_rows_all:
  "exit_size p = int (length es) \<Longrightarrow>
   print_rows es 0 p =
     p\<lparr>stderr := stderr p @ frame_lines es, effects := effects p @ map Written (frame_lines es)\<rparr>"
  by (simp add: print_rows_eq frame_lines_def comp_def)

lemma backtrace_then_symbols:
  "symbols D = Some name \<Longrightarrow>
   backtrace_symbols D (backtrace D p) = Some (map name (take (nat (exit_size p)) (callstack D)))"
proof -
  assume sym: "symbols D = Some name"
  define frames where "frames = take (nat (exit_size p)) (callstack D)"
  have "backtrace D p = p\<lparr>exit_stack := frames @ drop (length frames) (exit_stack p),
        exit_size := int (length frames),
        effects := effects p @ [Backtraced (length frames)]\<rparr>"
    unfolding backtrace_def frames_def Let_def ..
  then have "backtrace_symbols D (backtrace D p) =
               Some (map name (take (length frames) (frames @ drop (length frames) (exit_stack p))))"
    by (simp add: backtrace_symbols_def sym)
  then show ?thesis by (simp add: frames_def [symmetric])
qed

lemma print_backtrace_eq:
  "print_backtrace D p =
     (let gen = ''Generating backtrace...'' @ show_int (exit_size p) @ '' line(s)...\<newline>'' in
      if exit_size p = 0
      then p\<lparr>stderr := stderr p @ [gen], effects := effects p @ [Written gen]\<rparr>
      else (let frames = take (nat (exit_size p)) (callstack D);
                rows = (case symbols D of None \<Rightarrow> [] | Some name \<Rightarrow> frame_lines (map name frames))
            in p\<lparr>exit_stack := frames @ drop (length frames) (exit_stack p),
                 exit_size := int (length frames),
                 stderr := stderr p @ gen # rows,
                 effects := effects p @ Written gen # Backtraced (length frames) # map Written rows\<rparr>))"
proof -
  define gen where "gen = ''Generating backtrace...'' @ show_int (exit_size p) @ '' line(s)...\<newline>''"
  define p1 where "p1 = fprintf_stderr gen p"
  define frames where "frames = take (nat (exit_size p)) (callstack D)"
  have p1: "p1 = p\<lparr>stderr := stderr p @ [gen], effects := effects p @ [Written gen]\<rparr>"
    by (simp add: p1_def fprintf_stderr_def)
  have size1: "exit_size p1 = exit_size p" by (simp add: p1)
  have p2: "backtrace D p1 = p\<lparr>exit_stack := frames @ drop (length frames) (exit_stack p),
                 exit_size := int (length frames),
                 stderr := stderr p @ [gen],
                 effects := effects p @ [Written gen, Backtraced (length frames)]\<rparr>"
    by (simp add: backtrace_def Let_def p1 frames_def)
  have unfold: "print_backtrace D p =
     (if exit_size p \<noteq> 0
      then (case backtrace_symbols D (backtrace D p1) of
              Some exit_strings \<Rightarrow> print_rows exit_strings 0 (backtrace D p1)
            | None \<Rightarrow> backtrace D p1)
      else p1)"
    unfolding print_backtrace_def Let_def gen_def [symmetric] p1_def [symmetric]
    by (simp add: size1)
  define rows where
    "rows = (case symbols D of None \<Rightarrow> [] | Some name \<Rightarrow> frame_lines (map name frames))"
  have main: "print_backtrace D p =
     (if exit_size p = 0
      then p\<lparr>stderr := stderr p @ [gen], effects := effects p @ [Written gen]\<rparr>
      else p\<lparr>exit_stack := frames @ drop (length frames) (exit_stack p),
             exit_size := int (length frames),
             stderr := stderr p @ gen # rows,
             effects := effects p @ Written gen # Backtraced (length frames) # map Written rows\<rparr>)"
  proof (cases "exit_size p = 0")
    case True
    then show ?thesis by (simp add: unfold p1)
  next
    case False
    show ?thesis
    proof (cases "symbols D")
      case None
      then have "backtrace_symbols D (backtrace D p1) = None" by (simp add: backtrace_symbols_def)
      then show ?thesis
        using False None by (simp add: unfold p2 rows_def)
    next
      case (Some name)
      have syms: "backtrace_symbols D (backtrace D p1) = Some (map name frames)"
        using backtrace_then_symbols [OF Some, of p1] by (simp add: size1 frames_def)
      have size2: "exit_size (backtrace D p1) = int (length (map name frames))" by (simp add: p2)
      have "print_backtrace D p = print_rows (map name frames) 0 (backtrace D p1)"
        using False by (simp add: unfold syms)
      also have "\<dots> =
          (backtrace D p1)\<lparr>stderr := stderr (backtrace D p1) @ frame_lines (map name frames),
             effects := effects (backtrace D p1) @ map Written (frame_lines (map name frames))\<rparr>"
        using size2 by (rule print_rows_all)
      finally show ?thesis
        using False Some by (simp add: p2 rows_def)
    qed
  qed
  show ?thesis
    using main unfolding Let_def gen_def rows_def frames_def .
qed


lemmas handler_calls =
  signal_call_def signal_def store_exit_code_def fprintf_stderr_def exit_call_def

lemma frame_lines_Nil: "frame_lines [] = []"
  by (simp add: frame_lines_def)

lemma print_backtrace_stderr:
  "stderr (print_backtrace D p) =
     stderr p @ (''Generating backtrace...'' @ show_int (exit_size p) @ '' line(s)...\<newline>'')
                # frame_lines (resolved_frames D (exit_size p))"
  by (cases "symbols D")
     (simp_all add: print_backtrace_eq Let_def resolved_frames_def frame_lines_Nil)

lemma print_backtrace_keeps:
  "dispositions (print_backtrace D p) = dispositions p"
  "exit_code (print_backtrace D p) = exit_code p"
  "exit_status (print_backtrace D p) = exit_status p"
  by (simp_all add: print_backtrace_eq Let_def)

lemma print_backtrace_effects:
  "\<exists>rest. effects (print_backtrace D p) = effects p @ rest \<and> list_all output_or_exit rest"
  by (simp add: print_backtrace_eq Let_def list_all_iff)

lemma valid_signums_switch_order:
  assumes "valid_signums P"
  shows "distinct [SIGSYS P, SIGPIPE P, SIGQUIT P, SIGFPE P, SIGBUS P, SIGSEGV P, SIGINT P, SIGABRT P]"
  using assms unfolding valid_signums_def by auto

lemma handler_named:
  assumes "valid_signums P"
  shows "spine_signal_handler P D (SIGABRT P) p =
           fprintf_stderr (logtime D @ '' FATAL: Spine Interrupted by Abort Signal\<newline>'')
             (store_exit_code (SIGABRT P) (signal_call P (SIGABRT P) SIG_DFL p))"
    and "spine_signal_handler P D (SIGINT P) p =
           fprintf_stderr (logtime D @ '' FATAL: Spine Interrupted by Console Operator\<newline>'')
             (store_exit_code (SIGINT P) (signal_call P (SIGINT P) SIG_DFL p))"
    and "spine_signal_handler P D (SIGBUS P) p =
           fprintf_stderr (logtime D @ '' FATAL: Spine Encountered a Bus Error\<newline>'')
             (store_exit_code (SIGBUS P) (signal_call P (SIGBUS P) SIG_DFL p))"
    and "spine_signal_handler P D (SIGFPE P) p =
           fprintf_stderr (logtime D @ '' FATAL: Spine Encountered a Floating Point Exception\<newline>'')
             (store_exit_code (SIGFPE P) (signal_call P (SIGFPE P) SIG_DFL p))"
    and "spine_signal_handler P D (SIGQUIT P) p =
           fprintf_stderr (logtime D @ '' FATAL: Spine Encountered a Keyboard Quit Command\<newline>'')
             (store_exit_code (SIGQUIT P) (signal_call P (SIGQUIT P) SIG_DFL p))"
    and "spine_signal_handler P D (SIGPIPE P) p =
           fprintf_stderr (logtime D @ '' FATAL: Spine Encountered a Broken Pipe\<newline>'')
             (store_exit_code (SIGPIPE P) (signal_call P (SIGPIPE P) SIG_DFL p))"
  using valid_signums_switch_order [OF assms]
  by (simp_all add: spine_signal_handler_def Let_def)

lemma handler_unnamed:
  assumes "sig \<notin> {SIGABRT P, SIGINT P, SIGSEGV P, SIGBUS P, SIGFPE P, SIGQUIT P, SIGPIPE P}"
  shows "spine_signal_handler P D sig p =
           fprintf_stderr
             (logtime D @ '' FATAL: Spine Encountered An Unhandled Exception Signal Number: ''
                @ [CHR 0x27] @ show_int sig @ [CHR 0x27] @ ''\<newline>'')
             (store_exit_code sig (signal_call P sig SIG_DFL p))"
  using assms by (simp add: spine_signal_handler_def Let_def)

lemma handler_SIGSYS:
  assumes "valid_signums P"
  shows "spine_signal_handler P D (SIGSYS P) p =
           fprintf_stderr
             (logtime D @ '' FATAL: Spine Encountered An Unhandled Exception Signal Number: ''
                @ [CHR 0x27] @ show_int (SIGSYS P) @ [CHR 0x27] @ ''\<newline>'')
             (store_exit_code (SIGSYS P) (signal_call P (SIGSYS P) SIG_DFL p))"
  using valid_signums_switch_order [OF assms] by (intro handler_unnamed) simp

lemma handler_SIGSEGV:
  assumes "valid_signums P"
  shows "spine_signal_handler P D (SIGSEGV P) p =
     exit_call 1
       ((if HAVE_EXECINFO_H P then print_backtrace D else (\<lambda>q. q))
          (fprintf_stderr (logtime D @ '' FATAL: Spine Encountered a Segmentation Fault\<newline>'')
             (store_exit_code (SIGSEGV P) (signal_call P (SIGSEGV P) SIG_DFL p))))"
  using valid_signums_switch_order [OF assms]
  by (simp add: spine_signal_handler_def Let_def)

lemma handler_SIGSEGV_stderr:
  assumes "valid_signums P"
  shows "stderr (spine_signal_handler P D (SIGSEGV P) p) =
           stderr p @ (logtime D @ '' FATAL: Spine Encountered a Segmentation Fault\<newline>'')
             # (if HAVE_EXECINFO_H P
                then (''Generating backtrace...'' @ show_int (exit_size p) @ '' line(s)...\<newline>'')
                       # frame_lines (resolved_frames D (exit_size p))
                else [])"
  by (simp add: handler_SIGSEGV [OF assms] print_backtrace_stderr handler_calls)

lemma handler_exit_code: "exit_code (spine_signal_handler P D sig p) = sig"
  by (simp add: spine_signal_handler_def Let_def handler_calls print_backtrace_keeps)

lemma handler_exit_status:
  "exit_status (spine_signal_handler P D sig p) =
     (if sig = SIGSEGV P \<and> sig \<noteq> SIGABRT P \<and> sig \<noteq> SIGINT P then Some 1 else exit_status p)"
  by (simp add: spine_signal_handler_def Let_def handler_calls print_backtrace_keeps)

lemma monitored_set:
  "valid_signums P \<Longrightarrow>
   set (monitored P) =
     {SIGABRT P, SIGINT P, SIGSEGV P, SIGBUS P, SIGFPE P, SIGQUIT P, SIGPIPE P, SIGSYS P}"
  by (auto simp: monitored_valid)

lemma started_fields:
  "exit_size (started P) = 2" "exit_stack (started P) = [0, 0, 0, 0]"
  "stderr (started P) = []" "effects (started P) = []" "exit_status (started P) = None"
  "exit_code (started P) = 0"
  "dispositions (started P) = install_spine_signal_handler P all_default"
  by (simp_all add: started_def fresh_process_def)

lemma fresh_process_fields:
  "exit_size fresh_process = 0" "exit_stack fresh_process = []"
  "stderr fresh_process = []" "effects fresh_process = []" "exit_status fresh_process = None"
  "exit_code fresh_process = 0" "dispositions fresh_process = all_default"
  by (simp_all add: fresh_process_def)

lemma replicate_2: "replicate 2 x = [x, x]"
  by (simp add: numeral_2_eq_2)

lemma example_frame_lines:
  "frame_lines (resolved_frames example_delivery 2) =
     [''  0: frame 4096\<newline>'', ''  1: frame 4112\<newline>'']"
  by (simp add: frame_lines_def resolved_frames_def example_delivery_def show_int3_def
        show_int_def show_nat.simps digit_char_def upt_rec replicate_2)

lemma show_int_small: "show_int 0 = ''0''" "show_int 2 = ''2''" "show_int 31 = ''31''"
  by (simp_all add: show_int_def show_nat.simps digit_char_def)

lemma example_logtime: "logtime example_delivery = ''2023-01-01 00:00:00''"
  by (simp add: example_delivery_def)

lemma handler_SIGSEGV_effects:
  assumes "valid_signums P" and "HAVE_EXECINFO_H P" and "exit_size p \<noteq> 0"
  shows "effects (spine_signal_handler P D (SIGSEGV P) p) =
           effects p @
             [Signal_set (SIGSEGV P) SIG_DFL, Exit_code_stored (SIGSEGV P),
              Written (logtime D @ '' FATAL: Spine Encountered a Segmentation Fault\<newline>''),
              Written (''Generating backtrace...'' @ show_int (exit_size p) @ '' line(s)...\<newline>''),
              Backtraced (length (take (nat (exit_size p)) (callstack D)))]
             @ map Written (frame_lines (resolved_frames D (exit_size p))) @ [Exited 1]"
  using assms(2,3)
  by (cases "symbols D")
     (simp_all add: handler_SIGSEGV [OF assms(1)] print_backtrace_eq Let_def handler_calls
        resolved_frames_def frame_lines_Nil)

text \<open>One run on \<^verbatim>\<open>SIGSEGV\<close> (11), effect by effect.\<close>

lemma segv_effects_example:
  "effects (spine_signal_handler linux_glibc example_delivery 11 (started linux_glibc)) =
     [Signal_set 11 SIG_DFL, Exit_code_stored 11,
      Written ''2023-01-01 00:00:00 FATAL: Spine Encountered a Segmentation Fault\<newline>'',
      Written ''Generating backtrace...2 line(s)...\<newline>'',
      Backtraced 2,
      Written ''  0: frame 4096\<newline>'', Written ''  1: frame 4112\<newline>'',
      Exited 1]"
proof -
  have size: "exit_size (started linux_glibc) \<noteq> 0"
    by (simp add: started_fields)
  have len: "length (callstack example_delivery) = 3"
    by (simp add: example_delivery_def)
  show ?thesis
    using handler_SIGSEGV_effects [OF valid_linux linux_glibc_fields(11) size, of example_delivery]
    by (simp add: linux_glibc_fields started_fields example_logtime show_int_small len
          example_frame_lines)
qed

section \<open>The handler: the claims\<close>

text \<open>
  C5. Message selection: the monitored signals are the eight of the table; for abort,
  interrupt, bus error, floating point exception, quit and broken pipe the handler writes
  one line, the time stamp followed by \<^verbatim>\<open> FATAL: Spine \<close> and the reason of that signal;
  for \<^verbatim>\<open>SIGSYS\<close>, which has no case of its own, one line with the generic reason and
  the signal number; for \<^verbatim>\<open>SIGSEGV\<close> one such line, followed only by backtrace lines.
  In every case the exit code of the exit state becomes the signal number.
\<close>

theorem diagnostic_message_selection:
  assumes "valid_signums P"
  shows
    "set (monitored P) =
       {SIGABRT P, SIGINT P, SIGSEGV P, SIGBUS P, SIGFPE P, SIGQUIT P, SIGPIPE P, SIGSYS P}
     \<and> stderr (spine_signal_handler P D (SIGABRT P) p) =
         stderr p @ [logtime D @ '' FATAL: Spine Interrupted by Abort Signal\<newline>'']
     \<and> stderr (spine_signal_handler P D (SIGINT P) p) =
         stderr p @ [logtime D @ '' FATAL: Spine Interrupted by Console Operator\<newline>'']
     \<and> stderr (spine_signal_handler P D (SIGBUS P) p) =
         stderr p @ [logtime D @ '' FATAL: Spine Encountered a Bus Error\<newline>'']
     \<and> stderr (spine_signal_handler P D (SIGFPE P) p) =
         stderr p @ [logtime D @ '' FATAL: Spine Encountered a Floating Point Exception\<newline>'']
     \<and> stderr (spine_signal_handler P D (SIGQUIT P) p) =
         stderr p @ [logtime D @ '' FATAL: Spine Encountered a Keyboard Quit Command\<newline>'']
     \<and> stderr (spine_signal_handler P D (SIGPIPE P) p) =
         stderr p @ [logtime D @ '' FATAL: Spine Encountered a Broken Pipe\<newline>'']
     \<and> stderr (spine_signal_handler P D (SIGSYS P) p) =
         stderr p @ [logtime D @ '' FATAL: Spine Encountered An Unhandled Exception Signal Number: ''
                       @ [CHR 0x27] @ show_int (SIGSYS P) @ [CHR 0x27] @ ''\<newline>'']
     \<and> stderr (spine_signal_handler P D (SIGSEGV P) p) =
         stderr p @ (logtime D @ '' FATAL: Spine Encountered a Segmentation Fault\<newline>'')
           # (if HAVE_EXECINFO_H P
              then (''Generating backtrace...'' @ show_int (exit_size p) @ '' line(s)...\<newline>'')
                     # frame_lines (resolved_frames D (exit_size p))
              else [])
     \<and> exit_code (spine_signal_handler P D sig p) = sig"
  by (simp add: monitored_set [OF assms] handler_named [OF assms] handler_SIGSYS [OF assms]
        handler_SIGSEGV_stderr [OF assms] handler_exit_code handler_calls)

theorem diagnostic_message_selection_witness:
  "valid_signums linux_glibc
   \<and> stderr (spine_signal_handler linux_glibc example_delivery 2 (started linux_glibc)) =
       [''2023-01-01 00:00:00 FATAL: Spine Interrupted by Console Operator\<newline>'']
   \<and> exit_code (spine_signal_handler linux_glibc example_delivery 2 (started linux_glibc)) = 2
   \<and> stderr (spine_signal_handler linux_glibc example_delivery 31 (started linux_glibc)) =
       [''2023-01-01 00:00:00 FATAL: Spine Encountered An Unhandled Exception Signal Number: ''
          @ [CHR 0x27] @ ''31'' @ [CHR 0x27] @ ''\<newline>'']"
  using valid_linux
    diagnostic_message_selection [OF valid_linux, of example_delivery "started linux_glibc" 2]
  by (simp add: linux_glibc_fields started_fields example_logtime show_int_small)

text \<open>
  C2, as amended. On \<^verbatim>\<open>SIGSEGV\<close> the handler writes the segmentation fault line; in a
  build with \<^verbatim>\<open>HAVE_EXECINFO_H\<close> it then writes the line \<^verbatim>\<open>Generating backtrace...\<close> and
  the frame lines, indexed from zero, of the frames captured and resolved, and in a build
  without it nothing more; its last effect is to exit with status 1. For every other
  signal the handler leaves the process running.
\<close>

theorem segv_backtrace_and_exit:
  assumes "valid_signums P"
  shows
    "stderr (spine_signal_handler P D (SIGSEGV P) p) =
       stderr p @ (logtime D @ '' FATAL: Spine Encountered a Segmentation Fault\<newline>'')
         # (if HAVE_EXECINFO_H P
            then (''Generating backtrace...'' @ show_int (exit_size p) @ '' line(s)...\<newline>'')
                   # frame_lines (resolved_frames D (exit_size p))
            else [])
     \<and> exit_status (spine_signal_handler P D (SIGSEGV P) p) = Some 1
     \<and> last (effects (spine_signal_handler P D (SIGSEGV P) p)) = Exited 1
     \<and> (sig \<noteq> SIGSEGV P \<longrightarrow>
          exit_status (spine_signal_handler P D sig p) = exit_status p)"
proof -
  have "exit_status (spine_signal_handler P D (SIGSEGV P) p) = Some 1"
    using assms by (auto simp: handler_exit_status valid_signums_def)
  moreover have "last (effects (spine_signal_handler P D (SIGSEGV P) p)) = Exited 1"
    by (simp add: handler_SIGSEGV [OF assms] exit_call_def)
  moreover have "sig \<noteq> SIGSEGV P \<longrightarrow>
      exit_status (spine_signal_handler P D sig p) = exit_status p"
    by (simp add: handler_exit_status)
  ultimately show ?thesis
    by (simp add: handler_SIGSEGV_stderr [OF assms])
qed

theorem segv_backtrace_and_exit_witness:
  "valid_signums linux_glibc
   \<and> stderr (spine_signal_handler linux_glibc example_delivery 11 (started linux_glibc)) =
       [''2023-01-01 00:00:00 FATAL: Spine Encountered a Segmentation Fault\<newline>'',
        ''Generating backtrace...2 line(s)...\<newline>'',
        ''  0: frame 4096\<newline>'', ''  1: frame 4112\<newline>'']
   \<and> exit_status (spine_signal_handler linux_glibc example_delivery 11 (started linux_glibc)) = Some 1
   \<and> exit_status (spine_signal_handler linux_glibc example_delivery 13 (started linux_glibc)) = None"
  using valid_linux
    segv_backtrace_and_exit [OF valid_linux, of example_delivery "started linux_glibc" 13]
  by (simp add: linux_glibc_fields started_fields example_logtime show_int_small
        example_frame_lines)

text \<open>
  C2 as stated fails in a build without \<^verbatim>\<open>HAVE_EXECINFO_H\<close>: the segmentation fault line
  is all that is written before the exit.
\<close>

theorem segv_without_execinfo:
  "stderr (spine_signal_handler sysv example_delivery 11 (started sysv)) =
     [''2023-01-01 00:00:00 FATAL: Spine Encountered a Segmentation Fault\<newline>'']
   \<and> exit_status (spine_signal_handler sysv example_delivery 11 (started sysv)) = Some 1"
  using handler_SIGSEGV_stderr [OF valid_sysv, of example_delivery "started sysv"]
    handler_exit_status [of sysv example_delivery 11 "started sysv"]
  by (simp add: sysv_fields started_fields example_logtime)

lemma resolved_frames_none: "symbols D = None \<Longrightarrow> resolved_frames D n = []"
  by (simp add: resolved_frames_def)

lemma resolved_frames_zero: "resolved_frames D 0 = []"
  by (simp add: resolved_frames_def split: option.split)

text \<open>
  C8, as amended. In a build with \<^verbatim>\<open>HAVE_EXECINFO_H\<close>: when no frame is asked for, the
  handler writes \<^verbatim>\<open>Generating backtrace...0 line(s)...\<close>, captures nothing (no capture
  among its effects, buffer and count as before) and prints no frame line; when the
  resolver returns \<^verbatim>\<open>NULL\<close>, no frame line is printed. In a build without it the
  handler writes the segmentation fault line and no backtrace line at all. In every one
  of these cases, as in every other, the handler runs to its end and exits with status 1.
\<close>

theorem backtrace_degradation:
  assumes "valid_signums P"
  shows
    "(HAVE_EXECINFO_H P \<and> exit_size p = 0 \<longrightarrow>
        stderr (spine_signal_handler P D (SIGSEGV P) p) =
          stderr p @ [logtime D @ '' FATAL: Spine Encountered a Segmentation Fault\<newline>'',
                      ''Generating backtrace...0 line(s)...\<newline>'']
        \<and> effects (spine_signal_handler P D (SIGSEGV P) p) =
          effects p @ [Signal_set (SIGSEGV P) SIG_DFL, Exit_code_stored (SIGSEGV P),
                       Written (logtime D @ '' FATAL: Spine Encountered a Segmentation Fault\<newline>''),
                       Written ''Generating backtrace...0 line(s)...\<newline>'',
                       Exited 1]
        \<and> exit_stack (spine_signal_handler P D (SIGSEGV P) p) = exit_stack p
        \<and> exit_size (spine_signal_handler P D (SIGSEGV P) p) = 0)
     \<and> (HAVE_EXECINFO_H P \<and> symbols D = None \<longrightarrow>
          stderr (spine_signal_handler P D (SIGSEGV P) p) =
            stderr p @ [logtime D @ '' FATAL: Spine Encountered a Segmentation Fault\<newline>'',
                        ''Generating backtrace...'' @ show_int (exit_size p) @ '' line(s)...\<newline>''])
     \<and> (\<not> HAVE_EXECINFO_H P \<longrightarrow>
          stderr (spine_signal_handler P D (SIGSEGV P) p) =
            stderr p @ [logtime D @ '' FATAL: Spine Encountered a Segmentation Fault\<newline>'']
          \<and> effects (spine_signal_handler P D (SIGSEGV P) p) =
            effects p @ [Signal_set (SIGSEGV P) SIG_DFL, Exit_code_stored (SIGSEGV P),
                         Written (logtime D @ '' FATAL: Spine Encountered a Segmentation Fault\<newline>''),
                         Exited 1]
          \<and> exit_stack (spine_signal_handler P D (SIGSEGV P) p) = exit_stack p
          \<and> exit_size (spine_signal_handler P D (SIGSEGV P) p) = exit_size p)
     \<and> exit_status (spine_signal_handler P D (SIGSEGV P) p) = Some 1
     \<and> last (effects (spine_signal_handler P D (SIGSEGV P) p)) = Exited 1"
proof -
  have zero: "HAVE_EXECINFO_H P \<Longrightarrow> exit_size p = 0 \<Longrightarrow>
      spine_signal_handler P D (SIGSEGV P) p =
        p\<lparr>dispositions := (dispositions p)
             (SIGSEGV P := \<lparr>sa_handler = SIG_DFL, sa_mask = signal_mask P (SIGSEGV P),
                            sa_flags = signal_flags P (SIGSEGV P)\<rparr>),
          exit_code := SIGSEGV P,
          stderr := stderr p @ [logtime D @ '' FATAL: Spine Encountered a Segmentation Fault\<newline>'',
                      ''Generating backtrace...0 line(s)...\<newline>''],
          effects := effects p @ [Signal_set (SIGSEGV P) SIG_DFL, Exit_code_stored (SIGSEGV P),
                       Written (logtime D @ '' FATAL: Spine Encountered a Segmentation Fault\<newline>''),
                       Written ''Generating backtrace...0 line(s)...\<newline>'',
                       Exited 1],
          exit_status := Some 1\<rparr>"
    by (simp add: handler_SIGSEGV [OF assms] print_backtrace_eq handler_calls show_int_small
          Let_def)
  have none: "HAVE_EXECINFO_H P \<Longrightarrow> symbols D = None \<Longrightarrow>
      stderr (spine_signal_handler P D (SIGSEGV P) p) =
        stderr p @ [logtime D @ '' FATAL: Spine Encountered a Segmentation Fault\<newline>'',
                    ''Generating backtrace...'' @ show_int (exit_size p) @ '' line(s)...\<newline>'']"
    by (simp add: handler_SIGSEGV_stderr [OF assms] resolved_frames_none frame_lines_Nil)
  have without: "\<not> HAVE_EXECINFO_H P \<Longrightarrow>
      spine_signal_handler P D (SIGSEGV P) p =
        p\<lparr>dispositions := (dispositions p)
             (SIGSEGV P := \<lparr>sa_handler = SIG_DFL, sa_mask = signal_mask P (SIGSEGV P),
                            sa_flags = signal_flags P (SIGSEGV P)\<rparr>),
          exit_code := SIGSEGV P,
          stderr := stderr p @ [logtime D @ '' FATAL: Spine Encountered a Segmentation Fault\<newline>''],
          effects := effects p @ [Signal_set (SIGSEGV P) SIG_DFL, Exit_code_stored (SIGSEGV P),
                       Written (logtime D @ '' FATAL: Spine Encountered a Segmentation Fault\<newline>''),
                       Exited 1],
          exit_status := Some 1\<rparr>"
    by (simp add: handler_SIGSEGV [OF assms] handler_calls)
  have status: "exit_status (spine_signal_handler P D (SIGSEGV P) p) = Some 1"
    using valid_signums_switch_order [OF assms] by (simp add: handler_exit_status)
  have final: "last (effects (spine_signal_handler P D (SIGSEGV P) p)) = Exited 1"
    by (simp add: handler_SIGSEGV [OF assms] exit_call_def)
  show ?thesis
    using none status final by (simp add: zero without)
qed

theorem backtrace_degradation_witness:
  "valid_signums linux_glibc \<and> HAVE_EXECINFO_H linux_glibc \<and> exit_size fresh_process = 0
   \<and> symbols (example_delivery\<lparr>symbols := None\<rparr>) = None
   \<and> stderr (spine_signal_handler linux_glibc example_delivery 11 fresh_process) =
       [''2023-01-01 00:00:00 FATAL: Spine Encountered a Segmentation Fault\<newline>'',
        ''Generating backtrace...0 line(s)...\<newline>'']
   \<and> exit_stack (spine_signal_handler linux_glibc example_delivery 11 fresh_process) = []
   \<and> exit_status (spine_signal_handler linux_glibc example_delivery 11 fresh_process) = Some 1
   \<and> stderr (spine_signal_handler linux_glibc (example_delivery\<lparr>symbols := None\<rparr>) 11
         (started linux_glibc)) =
       [''2023-01-01 00:00:00 FATAL: Spine Encountered a Segmentation Fault\<newline>'',
        ''Generating backtrace...2 line(s)...\<newline>'']
   \<and> exit_status (spine_signal_handler linux_glibc (example_delivery\<lparr>symbols := None\<rparr>) 11
         (started linux_glibc)) = Some 1
   \<and> valid_signums sysv \<and> \<not> HAVE_EXECINFO_H sysv
   \<and> stderr (spine_signal_handler sysv example_delivery 11 (started sysv)) =
       [''2023-01-01 00:00:00 FATAL: Spine Encountered a Segmentation Fault\<newline>'']
   \<and> exit_stack (spine_signal_handler sysv example_delivery 11 (started sysv)) = [0, 0, 0, 0]
   \<and> exit_status (spine_signal_handler sysv example_delivery 11 (started sysv)) = Some 1"
  using valid_linux valid_sysv
    backtrace_degradation [OF valid_linux, of fresh_process example_delivery]
    backtrace_degradation [OF valid_linux, of "started linux_glibc"
      "example_delivery\<lparr>symbols := None\<rparr>"]
    backtrace_degradation [OF valid_sysv, of "started sysv" example_delivery]
  by (simp add: linux_glibc_fields sysv_fields started_fields fresh_process_fields
        example_logtime show_int_small)

text \<open>
  C8 as stated fails in a build without \<^verbatim>\<open>HAVE_EXECINFO_H\<close>: with no frame asked for,
  no \<^verbatim>\<open>Generating backtrace...0 line(s)...\<close> line is written before the exit.
\<close>

theorem zero_frames_without_execinfo:
  "exit_size fresh_process = 0
   \<and> stderr (spine_signal_handler sysv example_delivery 11 fresh_process) =
       [''2023-01-01 00:00:00 FATAL: Spine Encountered a Segmentation Fault\<newline>'']
   \<and> exit_status (spine_signal_handler sysv example_delivery 11 fresh_process) = Some 1"
  using handler_SIGSEGV_stderr [OF valid_sysv, of example_delivery fresh_process]
    handler_exit_status [of sysv example_delivery 11 fresh_process]
  by (simp add: sysv_fields fresh_process_fields example_logtime)

text \<open>
  C6. Order: for every signal delivered, the first effect of the handler is the reset of
  that signal to \<^verbatim>\<open>SIG_DFL\<close>, the second the store of the signal number in the exit code;
  everything after is output, capture or exit. So the disposition of the signal is the
  default after the first step, no later step registers anything, and it is the default
  when the handler is done: the handler is not entered again for that signal.
\<close>

theorem reset_before_anything:
  "\<exists>rest. effects (spine_signal_handler P D sig p) =
            effects p @ Signal_set sig SIG_DFL # Exit_code_stored sig # rest
          \<and> list_all output_or_exit rest
          \<and> disposition (dispositions (signal_call P sig SIG_DFL p)) sig = SIG_DFL
          \<and> disposition (dispositions (spine_signal_handler P D sig p)) sig = SIG_DFL"
proof -
  let ?q = "store_exit_code sig (signal_call P sig SIG_DFL p)"
  have q: "effects ?q = effects p @ [Signal_set sig SIG_DFL, Exit_code_stored sig]"
    by (simp add: handler_calls)
  have d: "disposition (dispositions (spine_signal_handler P D sig p)) sig = SIG_DFL"
    by (simp add: disposition_def spine_signal_handler_def Let_def handler_calls
          print_backtrace_keeps)
  have d1: "disposition (dispositions (signal_call P sig SIG_DFL p)) sig = SIG_DFL"
    by (simp add: disposition_def handler_calls)
  have "\<exists>rest. effects (spine_signal_handler P D sig p) = effects ?q @ rest
          \<and> list_all output_or_exit rest"
  proof (cases "sig = SIGSEGV P \<and> sig \<noteq> SIGABRT P \<and> sig \<noteq> SIGINT P \<and> HAVE_EXECINFO_H P")
    case True
    let ?r = "fprintf_stderr (logtime D @ '' FATAL: Spine Encountered a Segmentation Fault\<newline>'') ?q"
    obtain rest where rest: "effects (print_backtrace D ?r) = effects ?r @ rest"
      "list_all output_or_exit rest"
      using print_backtrace_effects [of D ?r] by blast
    have "spine_signal_handler P D sig p = exit_call 1 (print_backtrace D ?r)"
      using True by (simp add: spine_signal_handler_def Let_def)
    then have "effects (spine_signal_handler P D sig p) =
        effects ?q @ (Written (logtime D @ '' FATAL: Spine Encountered a Segmentation Fault\<newline>'')
                       # rest @ [Exited 1])"
      by (simp add: exit_call_def rest(1)) (simp add: fprintf_stderr_def)
    then show ?thesis using rest(2) by simp
  next
    case False
    then show ?thesis
      by (auto simp: spine_signal_handler_def Let_def fprintf_stderr_def exit_call_def)
  qed
  then show ?thesis using d d1 by (auto simp: q)
qed

text \<open>
  C10. Frame: one run of the handler for \<open>sig\<close> rewrites the entry of \<open>sig\<close> in the
  disposition table, to the default, and no other entry; it sets the exit code to \<open>sig\<close>;
  the frame buffer and the frame count are as before unless \<open>sig\<close> is \<^verbatim>\<open>SIGSEGV\<close>.
\<close>

theorem handler_frame:
  "dispositions (spine_signal_handler P D sig p) =
     (dispositions p)
       (sig := \<lparr>sa_handler = SIG_DFL, sa_mask = signal_mask P sig, sa_flags = signal_flags P sig\<rparr>)
   \<and> (other \<noteq> sig \<longrightarrow> dispositions (spine_signal_handler P D sig p) other = dispositions p other)
   \<and> exit_code (spine_signal_handler P D sig p) = sig
   \<and> (sig \<noteq> SIGSEGV P \<longrightarrow>
        exit_stack (spine_signal_handler P D sig p) = exit_stack p
        \<and> exit_size (spine_signal_handler P D sig p) = exit_size p)"
  by (simp add: spine_signal_handler_def Let_def handler_calls print_backtrace_keeps)

theorem handler_frame_witness:
  "disposition (dispositions (spine_signal_handler linux_glibc example_delivery 2 (started linux_glibc))) 2
     = SIG_DFL
   \<and> dispositions (spine_signal_handler linux_glibc example_delivery 2 (started linux_glibc)) 13
     = dispositions (started linux_glibc) 13
   \<and> disposition (dispositions (started linux_glibc)) 13 = SPINE_HANDLER
   \<and> exit_code (spine_signal_handler linux_glibc example_delivery 2 (started linux_glibc)) = 2
   \<and> exit_stack (spine_signal_handler linux_glibc example_delivery 2 (started linux_glibc))
     = [0, 0, 0, 0]
   \<and> exit_size (spine_signal_handler linux_glibc example_delivery 2 (started linux_glibc)) = 2"
  using handler_frame [of linux_glibc example_delivery 2 "started linux_glibc" 13]
  by (simp add: linux_glibc_fields started_fields disposition_def install_entry
        monitored_linux_glibc all_default_def)

end
